theory Spec2Isabelle
  imports Main "HOL-Library.Multiset"
begin

section \<open>Data model\<close>

text \<open>
  Datetimes are timezone-aware and Python compares them by the instant they denote, so a
  datetime is modelled by its instant: an integer number of seconds since the epoch.
  A \<^verbatim>\<open>timedelta\<close> is a number of seconds. One call of a method reads the clock
  several times (\<^verbatim>\<open>datetime.now\<close>, \<^verbatim>\<open>dt_util.utcnow\<close>, \<^verbatim>\<open>dt_util.now\<close>); the
  model passes a single instant \<open>now\<close> to the call.
\<close>

type_synonym instant = int

definition timedelta_days :: "int \<Rightarrow> int" where
  "timedelta_days n = n * 86400"

text \<open>A value that is either a \<^verbatim>\<open>date\<close> (a day number) or a \<^verbatim>\<open>datetime\<close>.\<close>

datatype date_or_datetime = Date int | DateTime instant

text \<open>
  The \<^verbatim>\<open>O365.calendar.Event\<close> attributes the integration reads. \<^verbatim>\<open>location\<close> is a
  dictionary (an association list here), \<^verbatim>\<open>series_master_id\<close> may be \<^verbatim>\<open>None\<close>, and
  \<^verbatim>\<open>start_sort\<close> is the attribute that \<^verbatim>\<open>_sort_events\<close> adds to the object.
  \<^verbatim>\<open>start\<close> is a datetime stored in a time zone of its own: \<open>start\<close> is its instant and
  \<open>start_utcoffset\<close> the UTC offset of that zone, in seconds, so that the clock of the
  stored datetime shows \<open>start + start_utcoffset\<close>.
\<close>

record event =
  object_id :: string
  subject :: string
  body :: string
  location :: "(string \<times> string) list"
  start :: instant
  start_utcoffset :: int
  ev_end :: instant
  is_all_day :: bool
  series_master_id :: "string option"
  start_sort :: "instant option"

text \<open>A timeline is the sequence of its events in iteration order.\<close>

type_synonym timeline = "event list"

text \<open>
  Exceptions. \<^verbatim>\<open>UpdateFailed\<close> carries its message and the exception it was raised
  from (\<^verbatim>\<open>__cause__\<close>); it is a subclass of \<^verbatim>\<open>HomeAssistantError\<close>.
\<close>

datatype exn =
    HomeAssistantError string
  | UpdateFailed string exn
  | KeyError string
  | UnboundLocalError string
  | OtherError string

fun exn_str :: "exn \<Rightarrow> string" where
  "exn_str (HomeAssistantError m) = m"
| "exn_str (UpdateFailed m c) = m"
| "exn_str (KeyError k) = [CHR 0x27] @ k @ [CHR 0x27]"
| "exn_str (UnboundLocalError m) = m"
| "exn_str (OtherError m) = m"

fun is_HomeAssistantError :: "exn \<Rightarrow> bool" where
  "is_HomeAssistantError (HomeAssistantError m) = True"
| "is_HomeAssistantError (UpdateFailed m c) = True"
| "is_HomeAssistantError e = False"

text \<open>
  \<^verbatim>\<open>datetime.date()\<close>: the calendar day that the clock of a stored datetime shows, for a
  datetime given by its instant and the UTC offset of its zone.
\<close>

definition datetime_date :: "instant \<Rightarrow> int \<Rightarrow> int" where
  "datetime_date t utcoffset = (t + utcoffset) div 86400"

text \<open>
  Functions of Home Assistant and of the Python library that the integration calls. They
  are not code of this repository and are taken as parameters:
  \<^item> \<open>date_of\<close>: the calendar day of an instant in the default time zone, as in
    \<^verbatim>\<open>dt_util.now().date()\<close>;
  \<^item> \<open>local_midnight\<close>: the instant at which a calendar day starts in the default time
    zone, so that \<^verbatim>\<open>dt_util.start_of_local_day(x)\<close> is \<open>local_midnight\<close> of the day of
    \<open>x\<close>;
  \<^item> \<open>get_hass_date\<close>, \<open>clean_html\<close>: helpers of the integration whose module is not
    part of the sources at hand;
  \<^item> \<open>calendar_event_schema\<close>: the validation run by the constructor of
    \<^verbatim>\<open>CalendarEvent\<close>, giving the message of the failure if there is one;
  \<^item> \<open>extract_offset\<close>, \<open>is_offset_reached\<close>: the offset syntax of event summaries
    (\<open>is_offset_reached\<close> reads the clock, its first argument here).
\<close>

record calendar_event =
  ce_start :: date_or_datetime
  ce_end :: date_or_datetime
  ce_summary :: string
  ce_description :: string
  ce_location :: string
  ce_uid :: string
  ce_recurrence_id :: "string option"

record lib =
  date_of :: "instant \<Rightarrow> int"
  local_midnight :: "int \<Rightarrow> instant"
  get_hass_date :: "date_or_datetime \<Rightarrow> bool \<Rightarrow> date_or_datetime"
  clean_html :: "string \<Rightarrow> string"
  calendar_event_schema :: "calendar_event \<Rightarrow> string option"
  extract_offset :: "string \<Rightarrow> string \<times> int"
  is_offset_reached :: "instant \<Rightarrow> instant \<Rightarrow> int \<Rightarrow> bool"

text \<open>
  \<^verbatim>\<open>dt_util.start_of_local_day\<close> takes the calendar day of its argument, for a datetime
  the day its own clock shows (\<^verbatim>\<open>dt_or_d.date()\<close>), and gives the midnight of that day in the
  default time zone. A \<open>DateTime\<close> carries no zone of its own: that case is the call on a
  datetime of the default time zone. For a datetime stored in another zone the caller
  passes the day that \<open>datetime_date\<close> gives.
\<close>

definition start_of_local_day :: "lib \<Rightarrow> date_or_datetime \<Rightarrow> instant" where
  "start_of_local_day l x =
     (case x of DateTime t \<Rightarrow> local_midnight l (date_of l t) | Date d \<Rightarrow> local_midnight l d)"

text \<open>\<^verbatim>\<open>dt_util.as_utc\<close> changes the time zone of a datetime, not its instant.\<close>

definition as_utc :: "instant \<Rightarrow> instant" where
  "as_utc t = t"

section \<open>The timeline and the helpers of \<^verbatim>\<open>utils_integration\<close>\<close>

text \<open>
  Modelled from the spec: \<^verbatim>\<open>MS365Timeline.overlapping\<close> (module \<^verbatim>\<open>sync/timeline.py\<close>) is
  missing from the sources. The spec: \<open>overlapping(a, b)\<close> returns every event whose
  \<open>[start, end)\<close> intersects \<open>[a, b)\<close>, that is \<open>e\<close> iff \<open>e.start < b\<close> and
  \<open>e.end > a\<close>. A timeline object defines no truth value of its own, so
  \<^verbatim>\<open>not self.data\<close> holds exactly when \<^verbatim>\<open>self.data\<close> is \<^verbatim>\<open>None\<close>.
\<close>

definition overlapping :: "timeline \<Rightarrow> instant \<Rightarrow> instant \<Rightarrow> event list" where
  "overlapping tml a b = filter (\<lambda>e. start e < b \<and> a < ev_end e) tml"

text \<open>
  Modelled from the spec: \<^verbatim>\<open>get_start_date\<close> and \<^verbatim>\<open>get_end_date\<close> (module
  \<^verbatim>\<open>utils_integration.py\<close>) are missing from the sources. The spec gives an event a
  start instant and an end instant; the helpers return these datetimes.
\<close>

definition get_start_date :: "event \<Rightarrow> date_or_datetime" where
  "get_start_date vevent = DateTime (start vevent)"

definition get_end_date :: "event \<Rightarrow> date_or_datetime" where
  "get_end_date vevent = DateTime (ev_end vevent)"

section \<open>The coordinator\<close>

record coordinator =
  data :: "timeline option"
  upcoming_timeline :: "timeline option"
  event :: "event option"
  sync_event_min_time :: int
  sync_event_max_time :: int

definition to_datetime :: "lib \<Rightarrow> date_or_datetime \<Rightarrow> instant" where
  "to_datetime l obj =
     (case obj of
        Date d \<Rightarrow> as_utc (start_of_local_day l (Date d))
      | DateTime t \<Rightarrow> as_utc t)"

definition is_started :: "lib \<Rightarrow> instant \<Rightarrow> event \<Rightarrow> bool" where
  "is_started l now vevent = (now \<ge> to_datetime l (get_start_date vevent))"

definition is_finished :: "lib \<Rightarrow> instant \<Rightarrow> event \<Rightarrow> bool" where
  "is_finished l now vevent = (now \<ge> to_datetime l (get_end_date vevent))"

text \<open>The three local variables of the loop of \<^verbatim>\<open>get_current_event\<close>.\<close>

record buckets =
  started_event :: "event option"
  not_started_event :: "event option"
  all_day_event :: "event option"

definition no_buckets :: buckets where
  "no_buckets = \<lparr>started_event = None, not_started_event = None, all_day_event = None\<rparr>"

text \<open>One iteration of the loop; a \<^verbatim>\<open>continue\<close> ends the iteration.\<close>

definition classify :: "lib \<Rightarrow> instant \<Rightarrow> event \<Rightarrow> buckets \<Rightarrow> buckets" where
  "classify l now ev b =
     (if is_all_day ev then
        (if all_day_event b = None \<and> \<not> is_finished l now ev
         then b\<lparr>all_day_event := Some ev\<rparr> else b)
      else if is_started l now ev \<and> \<not> is_finished l now ev then
        (if started_event b = None then b\<lparr>started_event := Some ev\<rparr> else b)
      else if \<not> is_finished l now ev \<and> \<not> is_all_day ev \<and> not_started_event b = None
        then b\<lparr>not_started_event := Some ev\<rparr>
      else b)"

fun classify_all :: "lib \<Rightarrow> instant \<Rightarrow> event list \<Rightarrow> buckets \<Rightarrow> buckets" where
  "classify_all l now [] b = b"
| "classify_all l now (ev # evs) b = classify_all l now evs (classify l now ev b)"

definition select_event :: "buckets \<Rightarrow> event option" where
  "select_event b =
     (case started_event b of
        Some ev \<Rightarrow> Some ev
      | None \<Rightarrow>
          (case all_day_event b of
             Some ev \<Rightarrow> Some ev
           | None \<Rightarrow> not_started_event b))"

text \<open>The events the loop runs over: lines 107 to 111 of the coordinator.\<close>

definition current_event_candidates :: "timeline \<Rightarrow> instant \<Rightarrow> event list" where
  "current_event_candidates tml now = overlapping tml now (now + timedelta_days 1)"

text \<open>\<^verbatim>\<open>get_current_event\<close> returns the event, or \<^verbatim>\<open>None\<close>, and the coordinator.\<close>

definition get_current_event ::
  "lib \<Rightarrow> instant \<Rightarrow> coordinator \<Rightarrow> event option \<times> coordinator" where
  "get_current_event l now c =
     (case data c of
        None \<Rightarrow> (None, c\<lparr>event := None\<rparr>)
      | Some tml \<Rightarrow>
          (select_event (classify_all l now (current_event_candidates tml now) no_buckets), c))"

text \<open>
  \<^verbatim>\<open>_async_update_data\<close>. The sync manager is not part of the sources at hand:
  \<open>run\<close> is the exception \<^verbatim>\<open>self.sync.run()\<close> raises, if it raises one, and \<open>stored\<close>
  the timeline the store service hands out after the run. The result is the returned
  timeline or the exception raised, with the coordinator after the call.
\<close>

definition async_update_data ::
  "exn option \<Rightarrow> timeline \<Rightarrow> coordinator \<Rightarrow> (exn + timeline) \<times> coordinator" where
  "async_update_data run stored c =
     (case run of
        Some err \<Rightarrow>
          (Inl (UpdateFailed (''Error communicating with API: '' @ exn_str err) err), c)
      | None \<Rightarrow> (Inr stored, c\<lparr>upcoming_timeline := Some stored\<rparr>))"

text \<open>
  \<^verbatim>\<open>async_get_events\<close>. \<open>remote\<close> is \<^verbatim>\<open>self.sync.async_list_events\<close>, the fetch from
  the remote calendar. The result is the events or the exception raised, the coordinator
  after the call, and the remote fetches the call has made, each with its range.
\<close>

definition async_get_events ::
  "(instant \<Rightarrow> instant \<Rightarrow> exn + event list) \<Rightarrow> instant \<Rightarrow> coordinator \<Rightarrow> instant \<Rightarrow> instant
     \<Rightarrow> (exn + event list) \<times> coordinator \<times> (instant \<times> instant) list" where
  "async_get_events remote now c start_date end_date =
     (case data c of
        None \<Rightarrow>
          (Inl (HomeAssistantError
                  ''Unable to get events: Sync from server has not completed''), c, [])
      | Some tml \<Rightarrow>
          (let sync_start_time = now + sync_event_min_time c;
               sync_end_time = now + sync_event_max_time c
           in if end_date < sync_start_time \<or> start_date > sync_end_time
              then (remote start_date end_date, c, [(start_date, end_date)])
              else (Inr (overlapping tml start_date end_date), c, [])))"

section \<open>Regular expressions\<close>

text \<open>
  An exclusion pattern is a regular expression, given by its syntax tree: the pattern
  \<^verbatim>\<open>Private.*\<close> is \<open>Seq (literal ''Private'') (Star Dot)\<close>. \<open>Dot\<close> matches every
  character but a newline. \<open>re_search\<close> is Python's \<^verbatim>\<open>re.search\<close> as a test: it tries
  every position of the string in turn and looks for a match that starts there.
\<close>

datatype regex =
    Nothing
  | Eps
  | Chr char
  | Dot
  | Seq regex regex
  | Alt regex regex
  | Star regex

fun literal :: "string \<Rightarrow> regex" where
  "literal [] = Eps"
| "literal (c # cs) = Seq (Chr c) (literal cs)"

fun nullable :: "regex \<Rightarrow> bool" where
  "nullable Nothing = False"
| "nullable Eps = True"
| "nullable (Chr c) = False"
| "nullable Dot = False"
| "nullable (Seq r s) = (nullable r \<and> nullable s)"
| "nullable (Alt r s) = (nullable r \<or> nullable s)"
| "nullable (Star r) = True"

fun deriv :: "char \<Rightarrow> regex \<Rightarrow> regex" where
  "deriv a Nothing = Nothing"
| "deriv a Eps = Nothing"
| "deriv a (Chr c) = (if a = c then Eps else Nothing)"
| "deriv a Dot = (if a = CHR 0x0A then Nothing else Eps)"
| "deriv a (Seq r s) =
     (if nullable r then Alt (Seq (deriv a r) s) (deriv a s) else Seq (deriv a r) s)"
| "deriv a (Alt r s) = Alt (deriv a r) (deriv a s)"
| "deriv a (Star r) = Seq (deriv a r) (Star r)"

text \<open>\<^verbatim>\<open>re.fullmatch\<close>: the whole string matches.\<close>

fun re_fullmatch :: "regex \<Rightarrow> string \<Rightarrow> bool" where
  "re_fullmatch r [] = nullable r"
| "re_fullmatch r (a # w) = re_fullmatch (deriv a r) w"

text \<open>\<^verbatim>\<open>re.match\<close>: a match that starts at the beginning of the string.\<close>

fun re_match :: "regex \<Rightarrow> string \<Rightarrow> bool" where
  "re_match r [] = nullable r"
| "re_match r (a # w) = (nullable r \<or> re_match (deriv a r) w)"

fun re_search :: "regex \<Rightarrow> string \<Rightarrow> bool" where
  "re_search r [] = re_match r []"
| "re_search r (a # w) = (re_match r (a # w) \<or> re_search r w)"

section \<open>The calendar entity\<close>

record entity =
  coordinator :: coordinator
  self_event :: "calendar_event option"
  self_offset_reached :: bool
  self_error :: "bool option"
  exclude :: "regex list option"
  warnings :: "(exn \<times> event) list"

text \<open>
  \<^verbatim>\<open>_create_calendar_event_entity\<close>. The arguments of the constructor are evaluated
  first, so a location without the key \<^verbatim>\<open>displayName\<close> raises \<^verbatim>\<open>KeyError\<close> before the
  constructor validates anything. The recurrence id is set after the construction, when
  \<^verbatim>\<open>series_master_id\<close> is neither \<^verbatim>\<open>None\<close> nor empty.
\<close>

definition create_calendar_event_entity :: "lib \<Rightarrow> event \<Rightarrow> exn + calendar_event" where
  "create_calendar_event_entity l vevent =
     (case map_of (location vevent) ''displayName'' of
        None \<Rightarrow> Inl (KeyError ''displayName'')
      | Some display_name \<Rightarrow>
          (let ev = \<lparr>ce_start = get_hass_date l (DateTime (start vevent)) (is_all_day vevent),
                     ce_end = get_hass_date l (get_end_date vevent) (is_all_day vevent),
                     ce_summary = subject vevent,
                     ce_description = clean_html l (body vevent),
                     ce_location = display_name,
                     ce_uid = object_id vevent,
                     ce_recurrence_id = None\<rparr>
           in case calendar_event_schema l ev of
                Some msg \<Rightarrow> Inl (HomeAssistantError msg)
              | None \<Rightarrow>
                  (case series_master_id vevent of
                     None \<Rightarrow> Inr ev
                   | Some sid \<Rightarrow>
                       if sid = [] then Inr ev else Inr (ev\<lparr>ce_recurrence_id := Some sid\<rparr>))))"

text \<open>
  \<^verbatim>\<open>_create_calendar_event_entities\<close>: the loop with \<^verbatim>\<open>event_list\<close> and the warnings
  logged so far. \<^verbatim>\<open>except HomeAssistantError\<close> catches that class and its subclasses;
  any other exception leaves the loop and the method.
\<close>

fun create_entities_loop ::
  "lib \<Rightarrow> event list \<Rightarrow> calendar_event list \<Rightarrow> (exn \<times> event) list
     \<Rightarrow> (exn + calendar_event list) \<times> (exn \<times> event) list" where
  "create_entities_loop l [] event_list logged = (Inr event_list, logged)"
| "create_entities_loop l (vevent # results) event_list logged =
     (case create_calendar_event_entity l vevent of
        Inr ev \<Rightarrow> create_entities_loop l results (event_list @ [ev]) logged
      | Inl err \<Rightarrow>
          if is_HomeAssistantError err
          then create_entities_loop l results event_list (logged @ [(err, vevent)])
          else (Inl err, logged))"

definition create_calendar_event_entities ::
  "lib \<Rightarrow> event list \<Rightarrow> (exn + calendar_event list) \<times> (exn \<times> event) list" where
  "create_calendar_event_entities l results = create_entities_loop l results [] []"

text \<open>\<^verbatim>\<open>_filter_events\<close>: the inner loop over the patterns, then the loop over the events.\<close>

fun include_loop :: "regex list \<Rightarrow> event \<Rightarrow> bool \<Rightarrow> bool" where
  "include_loop [] ev include = include"
| "include_loop (p # ps) ev include =
     include_loop ps ev (if re_search p (subject ev) then False else include)"

fun filter_loop :: "regex list \<Rightarrow> event list \<Rightarrow> event list \<Rightarrow> event list" where
  "filter_loop ps [] rtn_events = rtn_events"
| "filter_loop ps (ev # evs) rtn_events =
     filter_loop ps evs (if include_loop ps ev True then rtn_events @ [ev] else rtn_events)"

definition filter_events :: "regex list option \<Rightarrow> event list \<Rightarrow> event list" where
  "filter_events excl events =
     (let lst_events = events
      in case excl of
           None \<Rightarrow> lst_events
         | Some ps \<Rightarrow>
             if events = [] \<or> ps = [] then lst_events else filter_loop ps lst_events [])"

text \<open>
  \<^verbatim>\<open>_sort_events\<close>: the loop sets \<^verbatim>\<open>start_sort\<close> on every event, then the list is sorted
  by that attribute. Python's sort is stable, as \<open>sort_key\<close> is. The attribute is read
  only after the loop has set it on every element. \<^verbatim>\<open>start_of_local_day(event.start)\<close>
  takes \<^verbatim>\<open>event.start.date()\<close>, the day on the clock of the zone the start is stored in.
\<close>

definition set_start_sort :: "lib \<Rightarrow> event \<Rightarrow> event" where
  "set_start_sort l ev =
     (let ev1 = ev\<lparr>start_sort := Some (start ev)\<rparr>
      in if is_all_day ev1
         then ev1\<lparr>start_sort :=
                    Some (as_utc (start_of_local_day l
                            (Date (datetime_date (start ev1) (start_utcoffset ev1)))))\<rparr>
         else ev1)"

definition attrgetter_start_sort :: "event \<Rightarrow> instant" where
  "attrgetter_start_sort ev = the (start_sort ev)"

definition sort_events :: "lib \<Rightarrow> event list \<Rightarrow> event list" where
  "sort_events l events = sort_key attrgetter_start_sort (map (set_start_sort l) events)"

text \<open>
  \<^verbatim>\<open>_get_current_event\<close> of the entity. The local variable \<^verbatim>\<open>event\<close> is bound by the
  assignment in the \<^verbatim>\<open>try\<close> block only; \<open>None\<close> below is the unbound variable, and
  reading it raises \<^verbatim>\<open>UnboundLocalError\<close>. \<open>try_create\<close> is the \<^verbatim>\<open>try\<close> statement: it gives
  the exception that leaves it, or the local variable and the entity after it.
\<close>

definition try_create ::
  "lib \<Rightarrow> event \<Rightarrow> entity \<Rightarrow> exn + (calendar_event option \<times> entity)" where
  "try_create l vevent ent =
     (case create_calendar_event_entity l vevent of
        Inr ev \<Rightarrow> Inr (Some ev, ent\<lparr>self_error := Some False\<rparr>)
      | Inl err \<Rightarrow>
          if is_HomeAssistantError err
          then (if self_error ent = Some True then Inr (None, ent)
                else Inr (None, ent\<lparr>warnings := warnings ent @ [(err, vevent)],
                                     self_error := Some True\<rparr>))
          else Inl err)"

definition entity_get_current_event ::
  "lib \<Rightarrow> instant \<Rightarrow> entity \<Rightarrow> (exn + unit) \<times> entity" where
  "entity_get_current_event l now ent =
     (let (found, c) = get_current_event l now (coordinator ent);
          ent0 = ent\<lparr>coordinator := c\<rparr>
      in case found of
           None \<Rightarrow> (Inr (), ent0)
         | Some vevent \<Rightarrow>
             (case try_create l vevent ent0 of
                Inl err \<Rightarrow> (Inl err, ent0)
              | Inr (None, ent1) \<Rightarrow> (Inl (UnboundLocalError ''event''), ent1)
              | Inr (Some ev, ent1) \<Rightarrow>
                  (let (summary, offset) = extract_offset l (ce_summary ev);
                       ev1 = ev\<lparr>ce_summary := summary\<rparr>;
                       start_dt = to_datetime l (ce_start ev1)
                   in (Inr (),
                       ent1\<lparr>self_offset_reached := is_offset_reached l now start_dt offset,
                            self_event := Some ev1\<rparr>))))"

text \<open>The \<^verbatim>\<open>event\<close> property of the entity.\<close>

definition event_property :: "entity \<Rightarrow> calendar_event option" where
  "event_property ent = self_event ent"

section \<open>The notions of the specification\<close>

text \<open>The three buckets of the current-event resolution, as the specification words them.\<close>

definition bucket_started :: "instant \<Rightarrow> event \<Rightarrow> bool" where
  "bucket_started now e = (start e \<le> now \<and> now < ev_end e \<and> \<not> is_all_day e)"

definition bucket_all_day_unfinished :: "instant \<Rightarrow> event \<Rightarrow> bool" where
  "bucket_all_day_unfinished now e = (is_all_day e \<and> now < ev_end e)"

definition bucket_not_started :: "instant \<Rightarrow> event \<Rightarrow> bool" where
  "bucket_not_started now e = (now < start e \<and> \<not> is_all_day e)"

text \<open>The first of two optional events that is present.\<close>

definition first_or :: "'a option \<Rightarrow> 'a option \<Rightarrow> 'a option" where
  "first_or x y = (case x of Some v \<Rightarrow> Some v | None \<Rightarrow> y)"

text \<open>The start of the current day, in the default time zone.\<close>

definition today_start_instant :: "lib \<Rightarrow> instant \<Rightarrow> instant" where
  "today_start_instant l now = start_of_local_day l (DateTime now)"

text \<open>
  The synchronized window is \<open>[now + minTimeBefore, now + maxTimeAfter]\<close>. A range lies
  within it, extends outside it, or lies entirely outside it (before it or after it).
\<close>

definition within_window :: "instant \<Rightarrow> coordinator \<Rightarrow> instant \<Rightarrow> instant \<Rightarrow> bool" where
  "within_window now c s e =
     (now + sync_event_min_time c \<le> s \<and> e \<le> now + sync_event_max_time c)"

definition extends_outside_window ::
  "instant \<Rightarrow> coordinator \<Rightarrow> instant \<Rightarrow> instant \<Rightarrow> bool" where
  "extends_outside_window now c s e =
     (s < now + sync_event_min_time c \<or> now + sync_event_max_time c < e)"

definition entirely_outside_window ::
  "instant \<Rightarrow> coordinator \<Rightarrow> instant \<Rightarrow> instant \<Rightarrow> bool" where
  "entirely_outside_window now c s e =
     (e < now + sync_event_min_time c \<or> now + sync_event_max_time c < s)"

text \<open>The configured patterns: none when the option is absent.\<close>

definition configured_patterns :: "regex list option \<Rightarrow> regex list" where
  "configured_patterns excl = (case excl of None \<Rightarrow> [] | Some ps \<Rightarrow> ps)"

text \<open>The normalized sort key of the specification.\<close>

definition normalized_key :: "lib \<Rightarrow> event \<Rightarrow> instant" where
  "normalized_key l ev =
     (if is_all_day ev
      then as_utc (start_of_local_day l (Date (datetime_date (start ev) (start_utcoffset ev))))
      else start ev)"

text \<open>
  The events of a batch that convert, converted, and the ones that do not, each with its
  exception, both in the order of the batch.
\<close>

definition converted :: "lib \<Rightarrow> event list \<Rightarrow> calendar_event list" where
  "converted l results =
     concat (map (\<lambda>vevent. case create_calendar_event_entity l vevent of
                              Inr ev \<Rightarrow> [ev] | Inl err \<Rightarrow> []) results)"

definition skipped :: "lib \<Rightarrow> event list \<Rightarrow> (exn \<times> event) list" where
  "skipped l results =
     concat (map (\<lambda>vevent. case create_calendar_event_entity l vevent of
                              Inr ev \<Rightarrow> [] | Inl err \<Rightarrow> [(err, vevent)]) results)"

definition fails_as_HomeAssistantError :: "lib \<Rightarrow> event \<Rightarrow> bool" where
  "fails_as_HomeAssistantError l vevent =
     (case create_calendar_event_entity l vevent of
        Inr ev \<Rightarrow> True | Inl err \<Rightarrow> is_HomeAssistantError err)"

section \<open>Sample data\<close>

text \<open>
  An instance of the library functions for the default time zone UTC: days are counted
  from the epoch, and the constructor of \<^verbatim>\<open>CalendarEvent\<close> rejects an event that ends
  before it starts.
\<close>

definition instant_of :: "date_or_datetime \<Rightarrow> instant" where
  "instant_of x = (case x of Date d \<Rightarrow> d * 86400 | DateTime t \<Rightarrow> t)"

definition utc_lib :: lib where
  "utc_lib =
     \<lparr>date_of = (\<lambda>t. t div 86400),
      local_midnight = (\<lambda>d. d * 86400),
      get_hass_date = (\<lambda>x all_day. case x of
                          DateTime t \<Rightarrow> if all_day then Date (t div 86400) else DateTime t
                        | Date d \<Rightarrow> Date d),
      clean_html = (\<lambda>s. s),
      calendar_event_schema = (\<lambda>ev. if instant_of (ce_end ev) < instant_of (ce_start ev)
                                       then Some ''Expected minimum event duration''
                                       else None),
      extract_offset = (\<lambda>s. (s, 0)),
      is_offset_reached = (\<lambda>now start_dt offset. offset \<noteq> 0 \<and> start_dt + offset \<le> now)\<rparr>"

definition sample_event :: "string \<Rightarrow> string \<Rightarrow> instant \<Rightarrow> instant \<Rightarrow> bool \<Rightarrow> event" where
  "sample_event oid subj s e all_day =
     \<lparr>object_id = oid, subject = subj, body = [], location = [(''displayName'', ''Office'')],
      start = s, start_utcoffset = 0, ev_end = e, is_all_day = all_day,
      series_master_id = None, start_sort = None\<rparr>"

text \<open>
  A timeline seen at noon of day 0 (instant 43200): a meeting later in the day, an all-day
  event, a meeting under way, and a conference on day 85.
\<close>

definition later_event :: event where
  "later_event = sample_event ''a'' ''Later'' 46800 50400 False"

definition holiday_event :: event where
  "holiday_event = sample_event ''b'' ''Holiday'' 0 86400 True"

definition standup_event :: event where
  "standup_event = sample_event ''c'' ''Standup'' 39600 46800 False"

definition conference_event :: event where
  "conference_event = sample_event ''d'' ''Conference'' 7344000 7430400 False"

definition day_timeline :: timeline where
  "day_timeline = [later_event, holiday_event, standup_event, conference_event]"

text \<open>The window of the defaults: 15 days back and 90 days forward.\<close>

definition sample_coordinator :: "timeline option \<Rightarrow> coordinator" where
  "sample_coordinator d =
     \<lparr>data = d, upcoming_timeline = d, event = None,
      sync_event_min_time = timedelta_days (- 15), sync_event_max_time = timedelta_days 90\<rparr>"

definition sample_remote :: "instant \<Rightarrow> instant \<Rightarrow> exn + event list" where
  "sample_remote s e = Inr [sample_event ''r'' ''Remote'' s e False]"

text \<open>A meeting in the morning of day 1, 12.5 hours after noon of day 0.\<close>

definition breakfast_event :: event where
  "breakfast_event = sample_event ''t'' ''Breakfast'' 88200 91800 False"

text \<open>The pattern \<^verbatim>\<open>Private.*\<close>.\<close>

definition private_pattern :: regex where
  "private_pattern = Seq (literal ''Private'') (Star Dot)"

text \<open>
  A meeting of the morning of day 0 and an all-day event of the day before: both are over
  at noon of day 0.
\<close>

definition morning_event :: event where
  "morning_event = sample_event ''f'' ''Review'' 28800 32400 False"

definition yesterday_event :: event where
  "yesterday_event = sample_event ''g'' ''Inventory'' (- 86400) 0 True"

text \<open>
  An all-day event of day 1 stored as 1970-01-02T00:00+01:00, an hour before the end of
  day 0 in UTC.
\<close>

definition expo_event :: event where
  "expo_event = (sample_event ''e'' ''Expo'' 82800 169200 True)\<lparr>start_utcoffset := 3600\<rparr>"

text \<open>An all-day event stored with a start one hour into day 0, and a call at 00:30.\<close>

definition stored_all_day_event :: event where
  "stored_all_day_event = sample_event ''h'' ''Fair'' 3600 90000 True"

definition call_event :: event where
  "call_event = sample_event ''k'' ''Call'' 1800 2700 False"

text \<open>An event whose location has no \<^verbatim>\<open>displayName\<close>, and one that ends before it starts.\<close>

definition no_location_event :: event where
  "no_location_event = (sample_event ''x'' ''Offsite'' 3600 7200 False)\<lparr>location := []\<rparr>"

definition reversed_event :: event where
  "reversed_event = sample_event ''y'' ''Reversed'' 50400 46800 False"

text \<open>An entity that has published an event before.\<close>

definition sample_entity :: "timeline option \<Rightarrow> entity" where
  "sample_entity d =
     \<lparr>coordinator = sample_coordinator d,
      self_event = Some \<lparr>ce_start = DateTime 0, ce_end = DateTime 3600,
                         ce_summary = ''Earlier'', ce_description = [],
                         ce_location = ''Office'', ce_uid = ''p'', ce_recurrence_id = None\<rparr>,
      self_offset_reached = False, self_error = None, exclude = None, warnings = []\<rparr>"

lemmas sample_defs =
  sample_event_def later_event_def holiday_event_def standup_event_def conference_event_def
  day_timeline_def sample_coordinator_def sample_remote_def breakfast_event_def
  stored_all_day_event_def call_event_def no_location_event_def reversed_event_def
  morning_event_def yesterday_event_def expo_event_def
  sample_entity_def timedelta_days_def

lemmas utc_lib_defs = utc_lib_def instant_of_def

section \<open>Current-event resolution\<close>

lemma is_started_iff: "is_started l now e = (start e \<le> now)"
  by (simp add: is_started_def to_datetime_def get_start_date_def as_utc_def)

lemma is_finished_iff: "is_finished l now e = (ev_end e \<le> now)"
  by (simp add: is_finished_def to_datetime_def get_end_date_def as_utc_def)

text \<open>One iteration, for an event that has not ended: each bucket keeps what it holds.\<close>

lemma classify_buckets:
  assumes "now < ev_end e"
  shows "classify l now e b =
     \<lparr>started_event =
        first_or (started_event b) (if bucket_started now e then Some e else None),
      not_started_event =
        first_or (not_started_event b) (if bucket_not_started now e then Some e else None),
      all_day_event =
        first_or (all_day_event b)
          (if bucket_all_day_unfinished now e then Some e else None)\<rparr>"
  using assms
  by (cases b)
    (auto simp: classify_def is_started_iff is_finished_iff first_or_def bucket_started_def
      bucket_not_started_def bucket_all_day_unfinished_def split: option.splits)

lemma classify_all_buckets:
  assumes "\<forall>e \<in> set evs. now < ev_end e"
  shows "classify_all l now evs b =
     \<lparr>started_event = first_or (started_event b) (find (bucket_started now) evs),
      not_started_event = first_or (not_started_event b) (find (bucket_not_started now) evs),
      all_day_event =
        first_or (all_day_event b) (find (bucket_all_day_unfinished now) evs)\<rparr>"
  using assms
proof (induction evs arbitrary: b)
  case Nil
  then show ?case by (cases b) (simp add: first_or_def split: option.splits)
next
  case (Cons e evs)
  then show ?case
    by (simp add: classify_buckets) (simp add: first_or_def split: option.splits)
qed

lemma candidates_unfinished: "\<forall>e \<in> set (current_event_candidates tml now). now < ev_end e"
  by (simp add: current_event_candidates_def overlapping_def)

lemma candidates_buckets:
  "classify_all l now (current_event_candidates tml now) no_buckets =
     \<lparr>started_event = find (bucket_started now) (current_event_candidates tml now),
      not_started_event = find (bucket_not_started now) (current_event_candidates tml now),
      all_day_event =
        find (bucket_all_day_unfinished now) (current_event_candidates tml now)\<rparr>"
  by (simp add: classify_all_buckets [OF candidates_unfinished] no_buckets_def first_or_def)

lemma buckets_exclusive:
  "\<not> (bucket_started now e \<and> bucket_all_day_unfinished now e)"
  "\<not> (bucket_started now e \<and> bucket_not_started now e)"
  "\<not> (bucket_all_day_unfinished now e \<and> bucket_not_started now e)"
  by (auto simp: bucket_started_def bucket_all_day_unfinished_def bucket_not_started_def)

text \<open>
  One iteration for any event, also one that is over: the test \<open>now < end\<close> guards each of
  the three buckets.
\<close>

lemma classify_exact:
  "classify l now e b =
     \<lparr>started_event =
        first_or (started_event b) (if bucket_started now e then Some e else None),
      not_started_event =
        first_or (not_started_event b)
          (if bucket_not_started now e \<and> now < ev_end e then Some e else None),
      all_day_event =
        first_or (all_day_event b)
          (if bucket_all_day_unfinished now e then Some e else None)\<rparr>"
  by (cases b)
    (auto simp: classify_def is_started_iff is_finished_iff first_or_def bucket_started_def
      bucket_not_started_def bucket_all_day_unfinished_def split: option.splits)

lemma classify_all_exact:
  "classify_all l now evs b =
     \<lparr>started_event = first_or (started_event b) (find (bucket_started now) evs),
      not_started_event =
        first_or (not_started_event b)
          (find (\<lambda>e. bucket_not_started now e \<and> now < ev_end e) evs),
      all_day_event =
        first_or (all_day_event b) (find (bucket_all_day_unfinished now) evs)\<rparr>"
proof (induction evs arbitrary: b)
  case Nil
  then show ?case by (cases b) (simp add: first_or_def split: option.splits)
next
  case (Cons e evs)
  then show ?case
    by (simp add: classify_exact) (simp add: first_or_def split: option.splits)
qed

lemma loop_buckets_exact:
  "classify_all l now evs no_buckets =
     \<lparr>started_event = find (bucket_started now) evs,
      not_started_event = find (\<lambda>e. bucket_not_started now e \<and> now < ev_end e) evs,
      all_day_event = find (bucket_all_day_unfinished now) evs\<rparr>"
  by (simp add: classify_all_exact no_buckets_def first_or_def)

text \<open>An event that does not end before it starts and has not started has not ended.\<close>

lemma find_not_started_ordered:
  assumes "\<forall>e \<in> set evs. start e \<le> ev_end e"
  shows "find (\<lambda>e. bucket_not_started now e \<and> now < ev_end e) evs
           = find (bucket_not_started now) evs"
proof (rule find_cong [OF refl])
  fix e assume "e \<in> set evs"
  with assms have "start e \<le> ev_end e" by simp
  then show "(bucket_not_started now e \<and> now < ev_end e) = bucket_not_started now e"
    by (auto simp: bucket_not_started_def)
qed

lemma select_event_priority:
  "select_event b =
     first_or (started_event b) (first_or (all_day_event b) (not_started_event b))"
  by (simp add: select_event_def first_or_def split: option.splits)

text \<open>
  C1. For every instant \<open>now\<close>: no event is in two of the buckets started
  (\<open>start \<le> now < end\<close>, not all-day), all-day-unfinished (all-day, \<open>now < end\<close>) and
  not-started (\<open>now < start\<close>, not all-day). Over any sequence of candidate events, the loop
  of \<^verbatim>\<open>get_current_event\<close> leaves in the started bucket and in the all-day bucket the
  first candidate, in iteration order, that belongs to it, and in the not-started bucket
  the first candidate that is not-started and has \<open>now < end\<close>: an event that is over is in
  no bucket. For candidates with \<open>start \<le> end\<close>, as the data model requires, and for the
  candidates that \<open>overlapping\<close> returns after a sync, that is the first not-started
  candidate. The method returns the started event if there is one, otherwise the
  all-day-unfinished one, otherwise the not-started one, and nothing when the three
  buckets are empty.
\<close>

theorem get_current_event_priority:
  assumes "data c = Some tml"
  shows "(\<forall>e. \<not> (bucket_started now e \<and> bucket_all_day_unfinished now e)
            \<and> \<not> (bucket_started now e \<and> bucket_not_started now e)
            \<and> \<not> (bucket_all_day_unfinished now e \<and> bucket_not_started now e))
       \<and> classify_all l now evs no_buckets =
           \<lparr>started_event = find (bucket_started now) evs,
            not_started_event =
              find (\<lambda>e. bucket_not_started now e \<and> now < ev_end e) evs,
            all_day_event = find (bucket_all_day_unfinished now) evs\<rparr>
       \<and> ((\<forall>e \<in> set evs. start e \<le> ev_end e) \<longrightarrow>
            classify_all l now evs no_buckets =
              \<lparr>started_event = find (bucket_started now) evs,
               not_started_event = find (bucket_not_started now) evs,
               all_day_event = find (bucket_all_day_unfinished now) evs\<rparr>)
       \<and> select_event (classify_all l now evs no_buckets) =
           first_or (started_event (classify_all l now evs no_buckets))
             (first_or (all_day_event (classify_all l now evs no_buckets))
                (not_started_event (classify_all l now evs no_buckets)))
       \<and> classify_all l now (current_event_candidates tml now) no_buckets =
           \<lparr>started_event = find (bucket_started now) (current_event_candidates tml now),
            not_started_event =
              find (bucket_not_started now) (current_event_candidates tml now),
            all_day_event =
              find (bucket_all_day_unfinished now) (current_event_candidates tml now)\<rparr>
       \<and> fst (get_current_event l now c) =
           first_or (find (bucket_started now) (current_event_candidates tml now))
             (first_or
                (find (bucket_all_day_unfinished now) (current_event_candidates tml now))
                (find (bucket_not_started now) (current_event_candidates tml now)))
       \<and> (find (bucket_started now) (current_event_candidates tml now) = None
            \<and> find (bucket_all_day_unfinished now) (current_event_candidates tml now) = None
            \<and> find (bucket_not_started now) (current_event_candidates tml now) = None
          \<longrightarrow> fst (get_current_event l now c) = None)"
proof -
  have ordered: "classify_all l now evs no_buckets =
              \<lparr>started_event = find (bucket_started now) evs,
               not_started_event = find (bucket_not_started now) evs,
               all_day_event = find (bucket_all_day_unfinished now) evs\<rparr>"
    if "\<forall>e \<in> set evs. start e \<le> ev_end e"
    using find_not_started_ordered [OF that, of now] by (simp add: loop_buckets_exact)
  have "fst (get_current_event l now c) =
          select_event (classify_all l now (current_event_candidates tml now) no_buckets)"
    using assms by (simp add: get_current_event_def)
  then have res: "fst (get_current_event l now c) =
           first_or (find (bucket_started now) (current_event_candidates tml now))
             (first_or
                (find (bucket_all_day_unfinished now) (current_event_candidates tml now))
                (find (bucket_not_started now) (current_event_candidates tml now)))"
    by (simp add: candidates_buckets select_event_def first_or_def split: option.splits)
  have none: "fst (get_current_event l now c) = None"
    if "find (bucket_started now) (current_event_candidates tml now) = None
            \<and> find (bucket_all_day_unfinished now) (current_event_candidates tml now) = None
            \<and> find (bucket_not_started now) (current_event_candidates tml now) = None"
    using that res by (simp add: first_or_def)
  show ?thesis
  proof (intro conjI allI)
    show "classify_all l now evs no_buckets =
           \<lparr>started_event = find (bucket_started now) evs,
            not_started_event =
              find (\<lambda>e. bucket_not_started now e \<and> now < ev_end e) evs,
            all_day_event = find (bucket_all_day_unfinished now) evs\<rparr>"
      by (rule loop_buckets_exact)
    show "(\<forall>e \<in> set evs. start e \<le> ev_end e) \<longrightarrow>
            classify_all l now evs no_buckets =
              \<lparr>started_event = find (bucket_started now) evs,
               not_started_event = find (bucket_not_started now) evs,
               all_day_event = find (bucket_all_day_unfinished now) evs\<rparr>"
      using ordered by blast
    show "select_event (classify_all l now evs no_buckets) =
           first_or (started_event (classify_all l now evs no_buckets))
             (first_or (all_day_event (classify_all l now evs no_buckets))
                (not_started_event (classify_all l now evs no_buckets)))"
      by (rule select_event_priority)
    show "classify_all l now (current_event_candidates tml now) no_buckets =
           \<lparr>started_event = find (bucket_started now) (current_event_candidates tml now),
            not_started_event =
              find (bucket_not_started now) (current_event_candidates tml now),
            all_day_event =
              find (bucket_all_day_unfinished now) (current_event_candidates tml now)\<rparr>"
      by (rule candidates_buckets)
    show "fst (get_current_event l now c) =
           first_or (find (bucket_started now) (current_event_candidates tml now))
             (first_or
                (find (bucket_all_day_unfinished now) (current_event_candidates tml now))
                (find (bucket_not_started now) (current_event_candidates tml now)))"
      by (rule res)
    show "find (bucket_started now) (current_event_candidates tml now) = None
            \<and> find (bucket_all_day_unfinished now) (current_event_candidates tml now) = None
            \<and> find (bucket_not_started now) (current_event_candidates tml now) = None
          \<longrightarrow> fst (get_current_event l now c) = None"
      using none by blast
  qed (simp_all add: buckets_exclusive)
qed

theorem get_current_event_priority_witness:
  "data (sample_coordinator (Some day_timeline)) = Some day_timeline
   \<and> classify_all utc_lib 43200
       [morning_event, yesterday_event, later_event, holiday_event, standup_event] no_buckets
       = \<lparr>started_event = Some standup_event, not_started_event = Some later_event,
          all_day_event = Some holiday_event\<rparr>
   \<and> current_event_candidates day_timeline 43200 = [later_event, holiday_event, standup_event]
   \<and> find (bucket_started 43200) [later_event, holiday_event, standup_event]
       = Some standup_event
   \<and> find (bucket_all_day_unfinished 43200) [later_event, holiday_event, standup_event]
       = Some holiday_event
   \<and> find (bucket_not_started 43200) [later_event, holiday_event, standup_event]
       = Some later_event
   \<and> fst (get_current_event utc_lib 43200 (sample_coordinator (Some day_timeline)))
       = Some standup_event"
proof -
  have d: "data (sample_coordinator (Some day_timeline)) = Some day_timeline"
    by (simp add: sample_coordinator_def)
  note inst = get_current_event_priority [OF d, where l = utc_lib and now = 43200
      and evs = "[morning_event, yesterday_event, later_event, holiday_event, standup_event]"]
  have ord: "\<forall>e \<in> set [morning_event, yesterday_event, later_event, holiday_event,
                         standup_event]. start e \<le> ev_end e"
    by (simp add: sample_defs)
  have f1: "find (bucket_started 43200)
              [morning_event, yesterday_event, later_event, holiday_event, standup_event]
            = Some standup_event"
    by (simp add: bucket_started_def sample_defs)
  have f2: "find (bucket_not_started 43200)
              [morning_event, yesterday_event, later_event, holiday_event, standup_event]
            = Some later_event"
    by (simp add: bucket_not_started_def sample_defs)
  have f3: "find (bucket_all_day_unfinished 43200)
              [morning_event, yesterday_event, later_event, holiday_event, standup_event]
            = Some holiday_event"
    by (simp add: bucket_all_day_unfinished_def sample_defs)
  have "classify_all utc_lib 43200
       [morning_event, yesterday_event, later_event, holiday_event, standup_event] no_buckets
       = \<lparr>started_event = find (bucket_started 43200)
              [morning_event, yesterday_event, later_event, holiday_event, standup_event],
          not_started_event = find (bucket_not_started 43200)
              [morning_event, yesterday_event, later_event, holiday_event, standup_event],
          all_day_event = find (bucket_all_day_unfinished 43200)
              [morning_event, yesterday_event, later_event, holiday_event, standup_event]\<rparr>"
    using inst [THEN conjunct2, THEN conjunct2, THEN conjunct1] ord by (rule mp)
  then have loop: "classify_all utc_lib 43200
       [morning_event, yesterday_event, later_event, holiday_event, standup_event] no_buckets
       = \<lparr>started_event = Some standup_event, not_started_event = Some later_event,
          all_day_event = Some holiday_event\<rparr>"
    by (simp only: f1 f2 f3)
  have cands:
    "current_event_candidates day_timeline 43200 = [later_event, holiday_event, standup_event]"
    by (simp add: current_event_candidates_def overlapping_def sample_defs)
  have b1: "find (bucket_started 43200) [later_event, holiday_event, standup_event]
       = Some standup_event"
    by (simp add: bucket_started_def sample_defs)
  have b2: "find (bucket_all_day_unfinished 43200) [later_event, holiday_event, standup_event]
       = Some holiday_event"
    by (simp add: bucket_all_day_unfinished_def sample_defs)
  have b3: "find (bucket_not_started 43200) [later_event, holiday_event, standup_event]
       = Some later_event"
    by (simp add: bucket_not_started_def sample_defs)
  have "fst (get_current_event utc_lib 43200 (sample_coordinator (Some day_timeline))) =
           first_or (find (bucket_started 43200) (current_event_candidates day_timeline 43200))
             (first_or
                (find (bucket_all_day_unfinished 43200)
                   (current_event_candidates day_timeline 43200))
                (find (bucket_not_started 43200)
                   (current_event_candidates day_timeline 43200)))"
    using inst by (elim conjE)
  then have res: "fst (get_current_event utc_lib 43200
                         (sample_coordinator (Some day_timeline))) = Some standup_event"
    by (simp only: cands b1 b2 b3 first_or_def option.case)
  from d loop cands b1 b2 b3 res show ?thesis by (intro conjI)
qed

text \<open>
  C3, as stated, fails. At noon of day 0, with UTC the default time zone, the day starts at
  instant 0; a meeting in the morning of day 1 does not overlap \<open>[0, 86400)\<close>, yet it
  is a candidate of \<^verbatim>\<open>get_current_event\<close>, which returns it.
\<close>

theorem current_event_candidates_today_counterexample:
  "today_start_instant utc_lib 43200 = 0
   \<and> overlapping [breakfast_event] (today_start_instant utc_lib 43200)
        (today_start_instant utc_lib 43200 + timedelta_days 1) = []
   \<and> current_event_candidates [breakfast_event] 43200 = [breakfast_event]
   \<and> fst (get_current_event utc_lib 43200 (sample_coordinator (Some [breakfast_event])))
       = Some breakfast_event"
  by (simp add: today_start_instant_def start_of_local_day_def utc_lib_def
      current_event_candidates_def overlapping_def get_current_event_def classify_def
      is_started_iff is_finished_iff select_event_def no_buckets_def sample_defs)

lemma select_event_cases:
  "select_event b = Some e \<Longrightarrow>
     started_event b = Some e \<or> all_day_event b = Some e \<or> not_started_event b = Some e"
  by (auto simp: select_event_def split: option.splits)

lemma find_member: "find P xs = Some x \<Longrightarrow> x \<in> set xs"
  by (induction xs) (auto split: if_splits)

lemma current_event_is_candidate:
  assumes "data c = Some tml" and "fst (get_current_event l now c) = Some e"
  shows "e \<in> set (current_event_candidates tml now)"
proof -
  have "select_event (classify_all l now (current_event_candidates tml now) no_buckets)
          = Some e"
    using assms by (simp add: get_current_event_def)
  from select_event_cases [OF this]
  have "find (bucket_started now) (current_event_candidates tml now) = Some e
      \<or> find (bucket_all_day_unfinished now) (current_event_candidates tml now) = Some e
      \<or> find (bucket_not_started now) (current_event_candidates tml now) = Some e"
    by (simp add: candidates_buckets)
  then show ?thesis using find_member by fast
qed

text \<open>
  C3, amended. For every call after a sync, \<^verbatim>\<open>get_current_event\<close> draws its candidates
  from exactly the events of the timeline that overlap the half-open 24-hour interval
  starting at the current instant, \<open>[now, now + 24h)\<close>: the candidates are those events in
  timeline order, the result is resolved from them alone, and an event that is returned
  is one of them.
\<close>

theorem current_event_candidates_from_now:
  assumes "data c = Some tml"
  shows "current_event_candidates tml now =
           filter (\<lambda>e. start e < now + 86400 \<and> now < ev_end e) tml
       \<and> fst (get_current_event l now c) =
           select_event
             (classify_all l now
                (filter (\<lambda>e. start e < now + 86400 \<and> now < ev_end e) tml) no_buckets)
       \<and> (\<forall>e. fst (get_current_event l now c) = Some e \<longrightarrow>
              e \<in> set tml \<and> start e < now + 86400 \<and> now < ev_end e)"
proof -
  have cands: "current_event_candidates tml now =
           filter (\<lambda>e. start e < now + 86400 \<and> now < ev_end e) tml"
    by (simp add: current_event_candidates_def overlapping_def timedelta_days_def)
  have res: "fst (get_current_event l now c) =
           select_event (classify_all l now (current_event_candidates tml now) no_buckets)"
    using assms by (simp add: get_current_event_def)
  have mem: "e \<in> set tml \<and> start e < now + 86400 \<and> now < ev_end e"
    if "fst (get_current_event l now c) = Some e" for e
  proof -
    have "e \<in> set (filter (\<lambda>e. start e < now + 86400 \<and> now < ev_end e) tml)"
      using current_event_is_candidate [OF assms that] by (simp only: cands)
    then show ?thesis by simp
  qed
  show ?thesis
  proof (intro conjI allI impI)
    show "current_event_candidates tml now =
           filter (\<lambda>e. start e < now + 86400 \<and> now < ev_end e) tml"
      by (rule cands)
    show "fst (get_current_event l now c) =
           select_event
             (classify_all l now
                (filter (\<lambda>e. start e < now + 86400 \<and> now < ev_end e) tml) no_buckets)"
      using res by (simp only: cands)
  qed (simp_all add: mem)
qed

theorem current_event_candidates_from_now_witness:
  "data (sample_coordinator (Some (holiday_event # breakfast_event # [conference_event])))
     = Some (holiday_event # breakfast_event # [conference_event])
   \<and> current_event_candidates (holiday_event # breakfast_event # [conference_event]) 43200
       = [holiday_event, breakfast_event]
   \<and> fst (get_current_event utc_lib 43200
            (sample_coordinator (Some (holiday_event # breakfast_event # [conference_event]))))
       = Some holiday_event"
proof -
  have d: "data (sample_coordinator (Some (holiday_event # breakfast_event # [conference_event])))
     = Some (holiday_event # breakfast_event # [conference_event])"
    by (simp add: sample_coordinator_def)
  show ?thesis
    using current_event_candidates_from_now [OF d, of 43200 utc_lib] d
    by (simp add: classify_def is_started_iff is_finished_iff select_event_def no_buckets_def
        sample_defs)
qed

section \<open>Refresh and range queries\<close>

text \<open>
  C4. If \<^verbatim>\<open>SyncManager.run()\<close> raises, \<^verbatim>\<open>_async_update_data\<close> raises \<^verbatim>\<open>UpdateFailed\<close>,
  whose message quotes the underlying exception and whose cause is that exception, and it
  leaves the coordinator as it was: \<^verbatim>\<open>data\<close> and \<^verbatim>\<open>_upcoming_timeline\<close> are unchanged,
  and range queries and the current-event resolution answer as before.
\<close>

theorem async_update_data_failure_keeps_timeline:
  "async_update_data (Some err) stored c =
     (Inl (UpdateFailed (''Error communicating with API: '' @ exn_str err) err), c)
   \<and> data (snd (async_update_data (Some err) stored c)) = data c
   \<and> upcoming_timeline (snd (async_update_data (Some err) stored c)) = upcoming_timeline c
   \<and> async_get_events remote now (snd (async_update_data (Some err) stored c)) s e
       = async_get_events remote now c s e
   \<and> get_current_event l now (snd (async_update_data (Some err) stored c))
       = get_current_event l now c"
  by (simp add: async_update_data_def)

theorem async_update_data_failure_keeps_timeline_witness:
  "async_update_data (Some (OtherError ''timeout'')) [] (sample_coordinator (Some day_timeline))
     = (Inl (UpdateFailed ''Error communicating with API: timeout'' (OtherError ''timeout'')),
        sample_coordinator (Some day_timeline))
   \<and> data (snd (async_update_data (Some (OtherError ''timeout'')) []
                  (sample_coordinator (Some day_timeline)))) = Some day_timeline
   \<and> fst (async_get_events sample_remote 43200
            (snd (async_update_data (Some (OtherError ''timeout'')) []
                    (sample_coordinator (Some day_timeline)))) 0 43200)
       = Inr [holiday_event, standup_event]"
  using async_update_data_failure_keeps_timeline
    [of "OtherError ''timeout''" "[]" "sample_coordinator (Some day_timeline)"
      sample_remote 43200 0 43200 utc_lib]
  by (simp add: async_get_events_def overlapping_def sample_defs)

text \<open>
  C5. A range query that arrives while the coordinator has no data, because no sync has
  completed, raises \<^verbatim>\<open>HomeAssistantError\<close> with a not-ready message; it makes no remote
  fetch and does not answer with an empty list of events.
\<close>

theorem async_get_events_not_ready:
  assumes "data c = None"
  shows "async_get_events remote now c s e =
           (Inl (HomeAssistantError
                   ''Unable to get events: Sync from server has not completed''), c, [])
       \<and> fst (async_get_events remote now c s e) \<noteq> Inr []"
  using assms by (simp add: async_get_events_def)

theorem async_get_events_not_ready_witness:
  "data (sample_coordinator None) = None
   \<and> fst (async_get_events sample_remote 43200 (sample_coordinator None) 0 86400)
       = Inl (HomeAssistantError ''Unable to get events: Sync from server has not completed'')
   \<and> fst (async_get_events sample_remote 43200 (sample_coordinator (Some [])) 0 86400)
       = Inr []"
proof -
  have d: "data (sample_coordinator None) = None"
    by (simp add: sample_coordinator_def)
  show ?thesis
    using async_get_events_not_ready [OF d, of sample_remote 43200 0 86400] d
    by (simp add: async_get_events_def overlapping_def sample_defs)
qed

text \<open>
  C2, as stated, fails. With the window \<open>[now - 15 days, now + 90 days]\<close> and \<open>now = 0\<close>,
  the range from day 80 to day 100 straddles the end of the window. The query is answered
  from the cached timeline, with the conference of day 85, and no remote fetch is made.
\<close>

theorem async_get_events_straddling_counterexample:
  "extends_outside_window 0 (sample_coordinator (Some day_timeline)) 6912000 8640000
   \<and> \<not> within_window 0 (sample_coordinator (Some day_timeline)) 6912000 8640000
   \<and> async_get_events sample_remote 0 (sample_coordinator (Some day_timeline))
        6912000 8640000
      = (Inr [conference_event], sample_coordinator (Some day_timeline), [])"
  by (simp add: extends_outside_window_def within_window_def async_get_events_def
      overlapping_def sample_defs)

text \<open>
  C2, amended. For every range query made after a successful sync: when the range lies
  entirely outside the synchronized window (it ends before \<open>now + minTimeBefore\<close> or
  starts after \<open>now + maxTimeAfter\<close>), \<^verbatim>\<open>async_get_events\<close> answers with exactly one
  remote fetch of that range; otherwise, which includes every range \<open>start \<le> end\<close>
  within the window and every range that straddles a boundary of the window, it answers
  from the cached timeline via \<open>overlapping\<close> and makes no remote fetch. In both cases
  the coordinator and its cached timeline are left unchanged.
\<close>

theorem async_get_events_routing:
  assumes "data c = Some tml"
  shows "(entirely_outside_window now c s e \<longrightarrow>
            async_get_events remote now c s e = (remote s e, c, [(s, e)]))
       \<and> (\<not> entirely_outside_window now c s e \<longrightarrow>
            async_get_events remote now c s e = (Inr (overlapping tml s e), c, []))
       \<and> (s \<le> e \<and> within_window now c s e \<longrightarrow> \<not> entirely_outside_window now c s e)
       \<and> (s \<le> e \<and> extends_outside_window now c s e \<and> \<not> entirely_outside_window now c s e
            \<longrightarrow> async_get_events remote now c s e = (Inr (overlapping tml s e), c, []))"
  using assms
  by (auto simp: async_get_events_def entirely_outside_window_def within_window_def Let_def)

theorem async_get_events_routing_witness:
  "data (sample_coordinator (Some day_timeline)) = Some day_timeline
   \<and> entirely_outside_window 0 (sample_coordinator (Some day_timeline)) 7862400 8640000
   \<and> async_get_events sample_remote 0 (sample_coordinator (Some day_timeline))
        7862400 8640000
      = (Inr [sample_event ''r'' ''Remote'' 7862400 8640000 False],
         sample_coordinator (Some day_timeline), [(7862400, 8640000)])
   \<and> within_window 0 (sample_coordinator (Some day_timeline)) 0 43200
   \<and> async_get_events sample_remote 0 (sample_coordinator (Some day_timeline)) 0 43200
      = (Inr [holiday_event, standup_event], sample_coordinator (Some day_timeline), [])"
proof -
  have d: "data (sample_coordinator (Some day_timeline)) = Some day_timeline"
    by (simp add: sample_coordinator_def)
  show ?thesis
    using async_get_events_routing [OF d, of 0 7862400 8640000 sample_remote]
      async_get_events_routing [OF d, of 0 0 43200 sample_remote] d
    by (simp add: entirely_outside_window_def within_window_def overlapping_def sample_defs)
qed

section \<open>The exclusion filter\<close>

text \<open>\<^verbatim>\<open>re.match\<close> finds a prefix of the string that matches as a whole.\<close>

lemma re_match_iff: "re_match r s \<longleftrightarrow> (\<exists>v w. s = v @ w \<and> re_fullmatch r v)"
proof (induction s arbitrary: r)
  case Nil
  then show ?case by simp
next
  case (Cons a s)
  show ?case
  proof
    assume "re_match r (a # s)"
    then consider "nullable r" | "re_match (deriv a r) s" by auto
    then show "\<exists>v w. a # s = v @ w \<and> re_fullmatch r v"
    proof cases
      case 1
      then have "a # s = [] @ (a # s) \<and> re_fullmatch r []" by simp
      then show ?thesis by blast
    next
      case 2
      then obtain v w where "s = v @ w" "re_fullmatch (deriv a r) v" using Cons.IH by blast
      then have "a # s = (a # v) @ w \<and> re_fullmatch r (a # v)" by simp
      then show ?thesis by blast
    qed
  next
    assume "\<exists>v w. a # s = v @ w \<and> re_fullmatch r v"
    then obtain v w where vw: "a # s = v @ w" "re_fullmatch r v" by blast
    show "re_match r (a # s)"
    proof (cases v)
      case Nil
      with vw have "nullable r" by simp
      then show ?thesis by simp
    next
      case (Cons b v')
      with vw have "s = v' @ w" "re_fullmatch (deriv a r) v'" by auto
      then have "re_match (deriv a r) s" using Cons.IH by blast
      then show ?thesis by simp
    qed
  qed
qed

text \<open>\<^verbatim>\<open>re.search\<close> is unanchored: some part of the string matches as a whole.\<close>

lemma re_search_iff: "re_search r s \<longleftrightarrow> (\<exists>u v w. s = u @ v @ w \<and> re_fullmatch r v)"
proof (induction s)
  case Nil
  then show ?case by simp
next
  case (Cons a s)
  show ?case
  proof
    assume "re_search r (a # s)"
    then consider "re_match r (a # s)" | "re_search r s" by auto
    then show "\<exists>u v w. a # s = u @ v @ w \<and> re_fullmatch r v"
    proof cases
      case 1
      then obtain v w where "a # s = v @ w" "re_fullmatch r v" using re_match_iff by blast
      then have "a # s = [] @ v @ w \<and> re_fullmatch r v" by simp
      then show ?thesis by blast
    next
      case 2
      then obtain u v w where "s = u @ v @ w" "re_fullmatch r v" using Cons.IH by blast
      then have "a # s = (a # u) @ v @ w \<and> re_fullmatch r v" by simp
      then show ?thesis by blast
    qed
  next
    assume "\<exists>u v w. a # s = u @ v @ w \<and> re_fullmatch r v"
    then obtain u v w where uvw: "a # s = u @ v @ w" "re_fullmatch r v" by blast
    show "re_search r (a # s)"
    proof (cases u)
      case Nil
      with uvw have "re_match r (a # s)" using re_match_iff by auto
      then show ?thesis by simp
    next
      case (Cons b u')
      with uvw have "s = u' @ v @ w" by simp
      with uvw have "re_search r s" using Cons.IH by blast
      then show ?thesis by simp
    qed
  qed
qed

lemma include_loop_iff:
  "include_loop ps ev inc \<longleftrightarrow> inc \<and> \<not> (\<exists>p \<in> set ps. re_search p (subject ev))"
  by (induction ps arbitrary: inc) auto

lemma filter_loop_eq:
  "filter_loop ps evs rtn =
     rtn @ filter (\<lambda>ev. \<not> (\<exists>p \<in> set ps. re_search p (subject ev))) evs"
  by (induction evs arbitrary: rtn) (auto simp: include_loop_iff)

lemma filter_events_eq:
  "filter_events excl events =
     filter (\<lambda>ev. \<not> (\<exists>p \<in> set (configured_patterns excl). re_search p (subject ev))) events"
proof (cases excl)
  case None
  then show ?thesis by (simp add: filter_events_def configured_patterns_def)
next
  case (Some ps)
  then show ?thesis
    by (cases "events = [] \<or> ps = []")
      (auto simp: filter_events_def configured_patterns_def filter_loop_eq)
qed

text \<open>
  C6. For every list of events and every configured set of exclusion patterns,
  \<^verbatim>\<open>_filter_events\<close> drops exactly the events whose subject is matched by at least one
  pattern under \<^verbatim>\<open>re.search\<close>, and keeps the others in their order. The search is
  unanchored: a pattern matches a subject when some part of the subject matches it as a
  whole. The pattern \<^verbatim>\<open>Private.*\<close> matches the subject \<open>Private Lunch\<close> and does not
  match the subject \<open>Lunch\<close>.
\<close>

theorem filter_events_drops_matching:
  "filter_events excl events =
     filter (\<lambda>ev. \<not> (\<exists>p \<in> set (configured_patterns excl). re_search p (subject ev))) events
   \<and> (\<forall>p s. re_search p s \<longleftrightarrow> (\<exists>u v w. s = u @ v @ w \<and> re_fullmatch p v))
   \<and> re_search private_pattern ''Private Lunch''
   \<and> \<not> re_search private_pattern ''Lunch''"
proof -
  have "re_search private_pattern ''Private Lunch''"
    by (simp add: private_pattern_def)
  moreover have "\<not> re_search private_pattern ''Lunch''"
    by (simp add: private_pattern_def)
  ultimately show ?thesis using filter_events_eq re_search_iff by blast
qed

theorem filter_events_drops_matching_witness:
  "filter_events (Some [literal ''Dentist'', private_pattern])
     [sample_event ''m'' ''Private Lunch'' 0 3600 False,
      sample_event ''n'' ''Lunch'' 3600 7200 False,
      sample_event ''o'' ''Team Lunch (Private)'' 7200 9000 False]
   = [sample_event ''n'' ''Lunch'' 3600 7200 False]
   \<and> re_search (literal ''Lunch'') ''Private Lunch''
   \<and> \<not> re_fullmatch (literal ''Lunch'') ''Private Lunch''"
proof -
  have kept:
    "filter (\<lambda>ev. \<not> (\<exists>p \<in> set (configured_patterns (Some [literal ''Dentist'', private_pattern])).
                        re_search p (subject ev)))
       [sample_event ''m'' ''Private Lunch'' 0 3600 False,
        sample_event ''n'' ''Lunch'' 3600 7200 False,
        sample_event ''o'' ''Team Lunch (Private)'' 7200 9000 False]
     = [sample_event ''n'' ''Lunch'' 3600 7200 False]"
    by (simp add: configured_patterns_def private_pattern_def sample_event_def)
  have "filter_events (Some [literal ''Dentist'', private_pattern])
       [sample_event ''m'' ''Private Lunch'' 0 3600 False,
        sample_event ''n'' ''Lunch'' 3600 7200 False,
        sample_event ''o'' ''Team Lunch (Private)'' 7200 9000 False]
     = filter (\<lambda>ev. \<not> (\<exists>p \<in> set (configured_patterns (Some [literal ''Dentist'', private_pattern])).
                        re_search p (subject ev)))
       [sample_event ''m'' ''Private Lunch'' 0 3600 False,
        sample_event ''n'' ''Lunch'' 3600 7200 False,
        sample_event ''o'' ''Team Lunch (Private)'' 7200 9000 False]"
    using filter_events_drops_matching by (rule conjunct1)
  then have "filter_events (Some [literal ''Dentist'', private_pattern])
       [sample_event ''m'' ''Private Lunch'' 0 3600 False,
        sample_event ''n'' ''Lunch'' 3600 7200 False,
        sample_event ''o'' ''Team Lunch (Private)'' 7200 9000 False]
     = [sample_event ''n'' ''Lunch'' 3600 7200 False]"
    by (simp only: kept)
  moreover have "re_search (literal ''Lunch'') ''Private Lunch''" by simp
  moreover have "\<not> re_fullmatch (literal ''Lunch'') ''Private Lunch''" by simp
  ultimately show ?thesis by (intro conjI)
qed

section \<open>The sort stage\<close>

lemma set_start_sort_eq: "set_start_sort l ev = ev\<lparr>start_sort := Some (normalized_key l ev)\<rparr>"
  by (simp add: set_start_sort_def normalized_key_def)

lemma attrgetter_set_start_sort:
  "attrgetter_start_sort (set_start_sort l ev) = normalized_key l ev"
  by (simp add: set_start_sort_eq attrgetter_start_sort_def)

lemma normalized_key_set_start_sort:
  "normalized_key l (set_start_sort l ev) = normalized_key l ev"
  by (simp add: set_start_sort_eq normalized_key_def)

lemma attrgetter_sorted_events:
  "ev \<in> set (sort_events l events) \<Longrightarrow> attrgetter_start_sort ev = normalized_key l ev"
  by (auto simp: sort_events_def attrgetter_set_start_sort normalized_key_set_start_sort)

lemma sort_events_sorted: "sorted (map (normalized_key l) (sort_events l events))"
proof -
  have eq: "map (normalized_key l) (sort_events l events) =
            map attrgetter_start_sort (sort_events l events)"
    by (rule map_cong [OF refl]) (simp add: attrgetter_sorted_events)
  have "sorted (map attrgetter_start_sort (sort_events l events))"
    by (simp add: sort_events_def)
  then show ?thesis by (simp only: eq)
qed

lemma sort_events_stable:
  "filter (\<lambda>ev. normalized_key l ev = k) (sort_events l events)
     = filter (\<lambda>ev. normalized_key l ev = k) (map (set_start_sort l) events)"
proof -
  have "filter (\<lambda>ev. normalized_key l ev = k) (sort_events l events)
      = filter (\<lambda>ev. attrgetter_start_sort ev = k) (sort_events l events)"
    by (rule filter_cong) (simp_all add: attrgetter_sorted_events)
  also have "\<dots> = filter (\<lambda>ev. attrgetter_start_sort ev = k) (map (set_start_sort l) events)"
    unfolding sort_events_def by (rule sort_key_stable)
  also have "\<dots> = filter (\<lambda>ev. normalized_key l ev = k) (map (set_start_sort l) events)"
    by (rule filter_cong) (auto simp: attrgetter_set_start_sort normalized_key_set_start_sort)
  finally show ?thesis .
qed

lemma normalized_key_all_day:
  "is_all_day ev \<Longrightarrow>
     normalized_key l ev = local_midnight l (datetime_date (start ev) (start_utcoffset ev))"
  by (simp add: normalized_key_def start_of_local_day_def as_utc_def)

lemma datetime_date_midnight: "t + utcoffset = d * 86400 \<Longrightarrow> datetime_date t utcoffset = d"
  by (simp add: datetime_date_def)

text \<open>
  C7. For every list of events, \<^verbatim>\<open>_sort_events\<close> returns the events, each with its
  \<^verbatim>\<open>start_sort\<close> set to the normalized key, in ascending order of that key. The key of
  an event that is not all-day is its start; the key of an all-day event is the start of
  the local day of its start, converted to UTC: the midnight, in the default time zone, of
  the day that the stored start shows. So an all-day event stored as the midnight of a
  day, in whatever zone, sorts as if it began at the local midnight of that day. Events
  with equal keys keep their order.
\<close>

theorem sort_events_by_normalized_key:
  "sorted (map (normalized_key l) (sort_events l events))
   \<and> mset (sort_events l events) = mset (map (set_start_sort l) events)
   \<and> (\<forall>ev. set_start_sort l ev = ev\<lparr>start_sort := Some (normalized_key l ev)\<rparr>)
   \<and> (\<forall>ev. is_all_day ev \<longrightarrow>
          normalized_key l ev
            = as_utc (start_of_local_day l
                        (Date (datetime_date (start ev) (start_utcoffset ev))))
          \<and> normalized_key l ev
            = local_midnight l (datetime_date (start ev) (start_utcoffset ev)))
   \<and> (\<forall>ev d. is_all_day ev \<and> start ev + start_utcoffset ev = d * 86400 \<longrightarrow>
          normalized_key l ev = local_midnight l d)
   \<and> (\<forall>ev. \<not> is_all_day ev \<longrightarrow> normalized_key l ev = start ev)
   \<and> (\<forall>k. filter (\<lambda>ev. normalized_key l ev = k) (sort_events l events)
          = filter (\<lambda>ev. normalized_key l ev = k) (map (set_start_sort l) events))"
proof (intro conjI allI impI)
  show "sorted (map (normalized_key l) (sort_events l events))"
    by (rule sort_events_sorted)
  show "mset (sort_events l events) = mset (map (set_start_sort l) events)"
    by (simp add: sort_events_def)
  show "set_start_sort l ev = ev\<lparr>start_sort := Some (normalized_key l ev)\<rparr>" for ev
    by (rule set_start_sort_eq)
  show "normalized_key l ev
          = as_utc (start_of_local_day l
                      (Date (datetime_date (start ev) (start_utcoffset ev))))"
    if "is_all_day ev" for ev
    using that by (simp add: normalized_key_def)
  show "normalized_key l ev
          = local_midnight l (datetime_date (start ev) (start_utcoffset ev))"
    if "is_all_day ev" for ev
    using that by (rule normalized_key_all_day)
  show "normalized_key l ev = local_midnight l d"
    if "is_all_day ev \<and> start ev + start_utcoffset ev = d * 86400" for ev d
    using that by (simp add: normalized_key_all_day datetime_date_midnight)
  show "normalized_key l ev = start ev" if "\<not> is_all_day ev" for ev
    using that by (simp add: normalized_key_def)
  show "filter (\<lambda>ev. normalized_key l ev = k) (sort_events l events)
          = filter (\<lambda>ev. normalized_key l ev = k) (map (set_start_sort l) events)" for k
    by (rule sort_events_stable)
qed

theorem sort_events_by_normalized_key_witness:
  "sort_events utc_lib [expo_event, call_event, stored_all_day_event]
     = [stored_all_day_event\<lparr>start_sort := Some 0\<rparr>, call_event\<lparr>start_sort := Some 1800\<rparr>,
        expo_event\<lparr>start_sort := Some 86400\<rparr>]
   \<and> is_all_day stored_all_day_event
   \<and> start stored_all_day_event = 3600
   \<and> normalized_key utc_lib stored_all_day_event = 0
   \<and> normalized_key utc_lib call_event = 1800
   \<and> is_all_day expo_event
   \<and> start expo_event + start_utcoffset expo_event = 1 * 86400
   \<and> normalized_key utc_lib expo_event = 86400
   \<and> sorted (map (normalized_key utc_lib)
               (sort_events utc_lib [expo_event, call_event, stored_all_day_event]))"
proof -
  note inst = sort_events_by_normalized_key
    [of utc_lib "[expo_event, call_event, stored_all_day_event]"]
  have srt: "sorted (map (normalized_key utc_lib)
               (sort_events utc_lib [expo_event, call_event, stored_all_day_event]))"
    using inst by (rule conjunct1)
  have hyp: "is_all_day expo_event \<and> start expo_event + start_utcoffset expo_event = 1 * 86400"
    by (simp add: sample_defs)
  have "\<forall>ev d. is_all_day ev \<and> start ev + start_utcoffset ev = d * 86400 \<longrightarrow>
          normalized_key utc_lib ev = local_midnight utc_lib d"
    using inst by blast
  with hyp have "normalized_key utc_lib expo_event = local_midnight utc_lib 1"
    by blast
  then have expo: "normalized_key utc_lib expo_event = 86400"
    by (simp add: utc_lib_def)
  have res: "sort_events utc_lib [expo_event, call_event, stored_all_day_event]
     = [stored_all_day_event\<lparr>start_sort := Some 0\<rparr>, call_event\<lparr>start_sort := Some 1800\<rparr>,
        expo_event\<lparr>start_sort := Some 86400\<rparr>]"
    by (simp add: sort_events_def set_start_sort_def attrgetter_start_sort_def
        start_of_local_day_def as_utc_def datetime_date_def utc_lib_def sample_defs)
  have k1: "normalized_key utc_lib stored_all_day_event = 0"
    by (simp add: normalized_key_def start_of_local_day_def as_utc_def datetime_date_def
        utc_lib_def sample_defs)
  have k2: "normalized_key utc_lib call_event = 1800"
    by (simp add: normalized_key_def sample_defs)
  have f: "is_all_day stored_all_day_event" "start stored_all_day_event = 3600"
    by (simp_all add: sample_defs)
  from res f k1 k2 hyp expo srt show ?thesis by (intro conjI) (simp_all only: simp_thms)
qed

section \<open>Entity construction\<close>

text \<open>
  C8, as stated, fails. A batch of three events whose second event has a location without
  \<^verbatim>\<open>displayName\<close>: the conversion of that event raises \<^verbatim>\<open>KeyError\<close>, which
  \<^verbatim>\<open>except HomeAssistantError\<close> does not catch. The batch is aborted: no list is
  returned, although the first and the third event convert, and nothing is logged.
\<close>

theorem create_entities_KeyError_counterexample:
  "create_calendar_event_entity utc_lib later_event
     = Inr \<lparr>ce_start = DateTime 46800, ce_end = DateTime 50400, ce_summary = ''Later'',
            ce_description = [], ce_location = ''Office'', ce_uid = ''a'',
            ce_recurrence_id = None\<rparr>
   \<and> create_calendar_event_entity utc_lib no_location_event = Inl (KeyError ''displayName'')
   \<and> create_calendar_event_entities utc_lib [later_event, no_location_event, standup_event]
     = (Inl (KeyError ''displayName''), [])"
  by (simp add: create_calendar_event_entities_def create_calendar_event_entity_def
      get_end_date_def utc_lib_defs sample_defs)

lemma create_entities_loop_eq:
  assumes "\<forall>vevent \<in> set results. fails_as_HomeAssistantError l vevent"
  shows "create_entities_loop l results event_list logged =
           (Inr (event_list @ converted l results), logged @ skipped l results)"
  using assms
proof (induction results arbitrary: event_list logged)
  case Nil
  then show ?case by (simp add: converted_def skipped_def)
next
  case (Cons vevent results)
  then show ?case
    by (cases "create_calendar_event_entity l vevent")
      (simp_all add: converted_def skipped_def fails_as_HomeAssistantError_def)
qed

lemma converted_member:
  "ev \<in> set (converted l results) \<longleftrightarrow>
     (\<exists>vevent \<in> set results. create_calendar_event_entity l vevent = Inr ev)"
  by (induction results) (auto simp: converted_def split: sum.splits)

lemma skipped_member:
  "(err, vevent) \<in> set (skipped l results) \<longleftrightarrow>
     vevent \<in> set results \<and> create_calendar_event_entity l vevent = Inl err"
  by (induction results) (auto simp: skipped_def split: sum.splits)

text \<open>
  C8, amended. For every batch of events in which every conversion failure is a
  \<^verbatim>\<open>HomeAssistantError\<close> (the constructor of \<^verbatim>\<open>CalendarEvent\<close> rejecting the event):
  \<^verbatim>\<open>_create_calendar_event_entities\<close> returns the conversions of the events that convert,
  in the order of the batch, and logs one warning, with the exception and the event, for
  each event that does not; such an event is skipped and the rest of the batch is
  converted.
\<close>

theorem create_entities_skips_HomeAssistantError:
  assumes "\<forall>vevent \<in> set results. fails_as_HomeAssistantError l vevent"
  shows "create_calendar_event_entities l results
           = (Inr (converted l results), skipped l results)
       \<and> (\<forall>ev. ev \<in> set (converted l results) \<longleftrightarrow>
              (\<exists>vevent \<in> set results. create_calendar_event_entity l vevent = Inr ev))
       \<and> (\<forall>err vevent. (err, vevent) \<in> set (skipped l results) \<longleftrightarrow>
              vevent \<in> set results \<and> create_calendar_event_entity l vevent = Inl err)"
proof -
  have "create_calendar_event_entities l results
           = (Inr (converted l results), skipped l results)"
    using assms by (simp add: create_calendar_event_entities_def create_entities_loop_eq)
  then show ?thesis using converted_member skipped_member by blast
qed

theorem create_entities_skips_HomeAssistantError_witness:
  "fails_as_HomeAssistantError utc_lib later_event
   \<and> fails_as_HomeAssistantError utc_lib reversed_event
   \<and> fails_as_HomeAssistantError utc_lib standup_event
   \<and> create_calendar_event_entity utc_lib reversed_event
       = Inl (HomeAssistantError ''Expected minimum event duration'')
   \<and> create_calendar_event_entities utc_lib [later_event, reversed_event, standup_event]
       = (Inr [\<lparr>ce_start = DateTime 46800, ce_end = DateTime 50400, ce_summary = ''Later'',
                 ce_description = [], ce_location = ''Office'', ce_uid = ''a'',
                 ce_recurrence_id = None\<rparr>,
               \<lparr>ce_start = DateTime 39600, ce_end = DateTime 46800, ce_summary = ''Standup'',
                 ce_description = [], ce_location = ''Office'', ce_uid = ''c'',
                 ce_recurrence_id = None\<rparr>],
          [(HomeAssistantError ''Expected minimum event duration'', reversed_event)])"
proof -
  have c1: "create_calendar_event_entity utc_lib later_event
     = Inr \<lparr>ce_start = DateTime 46800, ce_end = DateTime 50400, ce_summary = ''Later'',
            ce_description = [], ce_location = ''Office'', ce_uid = ''a'',
            ce_recurrence_id = None\<rparr>"
    by (simp add: create_calendar_event_entity_def get_end_date_def utc_lib_defs sample_defs)
  have c2: "create_calendar_event_entity utc_lib reversed_event
       = Inl (HomeAssistantError ''Expected minimum event duration'')"
    by (simp add: create_calendar_event_entity_def get_end_date_def utc_lib_defs sample_defs)
  have c3: "create_calendar_event_entity utc_lib standup_event
     = Inr \<lparr>ce_start = DateTime 39600, ce_end = DateTime 46800, ce_summary = ''Standup'',
            ce_description = [], ce_location = ''Office'', ce_uid = ''c'',
            ce_recurrence_id = None\<rparr>"
    by (simp add: create_calendar_event_entity_def get_end_date_def utc_lib_defs sample_defs)
  have h: "\<forall>vevent \<in> set [later_event, reversed_event, standup_event].
             fails_as_HomeAssistantError utc_lib vevent"
    by (simp add: fails_as_HomeAssistantError_def c1 c2 c3)
  have "create_calendar_event_entities utc_lib [later_event, reversed_event, standup_event]
          = (Inr (converted utc_lib [later_event, reversed_event, standup_event]),
             skipped utc_lib [later_event, reversed_event, standup_event])"
    using create_entities_skips_HomeAssistantError [OF h] by (rule conjunct1)
  then show ?thesis
    by (simp add: converted_def skipped_def fails_as_HomeAssistantError_def c1 c2 c3)
qed

section \<open>The current event of the entity\<close>

text \<open>
  C9. Whenever the coordinator resolves no current event, \<^verbatim>\<open>_get_current_event\<close> of the
  entity returns normally without assigning \<^verbatim>\<open>self._event\<close> or
  \<^verbatim>\<open>self._offset_reached\<close>: the entity is as before, but for what the coordinator has
  done to itself, and the \<^verbatim>\<open>event\<close> property still gives the event published before.
\<close>

theorem entity_keeps_event_when_none:
  assumes "fst (get_current_event l now (coordinator ent)) = None"
  shows "entity_get_current_event l now ent =
           (Inr (), ent\<lparr>coordinator := snd (get_current_event l now (coordinator ent))\<rparr>)
       \<and> event_property (snd (entity_get_current_event l now ent)) = event_property ent
       \<and> self_event (snd (entity_get_current_event l now ent)) = self_event ent
       \<and> self_offset_reached (snd (entity_get_current_event l now ent))
           = self_offset_reached ent"
proof (cases "get_current_event l now (coordinator ent)")
  case (Pair found c)
  with assms have "found = None" by simp
  with Pair show ?thesis
    by (simp add: entity_get_current_event_def event_property_def)
qed

theorem entity_keeps_event_when_none_witness:
  "fst (get_current_event utc_lib 43200 (coordinator (sample_entity (Some [])))) = None
   \<and> fst (entity_get_current_event utc_lib 43200 (sample_entity (Some []))) = Inr ()
   \<and> event_property (snd (entity_get_current_event utc_lib 43200 (sample_entity (Some []))))
       = Some \<lparr>ce_start = DateTime 0, ce_end = DateTime 3600, ce_summary = ''Earlier'',
               ce_description = [], ce_location = ''Office'', ce_uid = ''p'',
               ce_recurrence_id = None\<rparr>"
proof -
  have h: "fst (get_current_event utc_lib 43200 (coordinator (sample_entity (Some [])))) = None"
    by (simp add: get_current_event_def current_event_candidates_def overlapping_def
        select_event_def no_buckets_def sample_defs)
  show ?thesis
    using entity_keeps_event_when_none [OF h] h
    by (simp add: event_property_def sample_entity_def)
qed

text \<open>
  C10. When the coordinator resolves a current event whose conversion raises
  \<^verbatim>\<open>HomeAssistantError\<close>, the handler in \<^verbatim>\<open>_get_current_event\<close> leaves the local
  variable \<^verbatim>\<open>event\<close> unbound, and reading it in \<^verbatim>\<open>deepcopy(event)\<close> raises
  \<^verbatim>\<open>UnboundLocalError\<close>: the method does not complete normally, \<^verbatim>\<open>self._event\<close> and
  \<^verbatim>\<open>self._offset_reached\<close> are unchanged, and the error flag is set. There are such
  events.
\<close>

theorem entity_unbound_event_on_HomeAssistantError:
  assumes "fst (get_current_event l now (coordinator ent)) = Some vevent"
    and "create_calendar_event_entity l vevent = Inl err"
    and "is_HomeAssistantError err"
  shows "fst (entity_get_current_event l now ent) = Inl (UnboundLocalError ''event'')
       \<and> self_event (snd (entity_get_current_event l now ent)) = self_event ent
       \<and> self_offset_reached (snd (entity_get_current_event l now ent))
           = self_offset_reached ent
       \<and> self_error (snd (entity_get_current_event l now ent)) = Some True"
proof (cases "get_current_event l now (coordinator ent)")
  case (Pair found c)
  with assms have "found = Some vevent" by simp
  with Pair assms(2,3) show ?thesis
    by (cases "self_error ent = Some True")
      (simp_all add: entity_get_current_event_def try_create_def Let_def)
qed

theorem entity_unbound_event_on_HomeAssistantError_witness:
  "fst (get_current_event utc_lib 43200 (coordinator (sample_entity (Some [reversed_event]))))
     = Some reversed_event
   \<and> create_calendar_event_entity utc_lib reversed_event
       = Inl (HomeAssistantError ''Expected minimum event duration'')
   \<and> is_HomeAssistantError (HomeAssistantError ''Expected minimum event duration'')
   \<and> fst (entity_get_current_event utc_lib 43200 (sample_entity (Some [reversed_event])))
       = Inl (UnboundLocalError ''event'')
   \<and> self_event (snd (entity_get_current_event utc_lib 43200
                         (sample_entity (Some [reversed_event]))))
       = self_event (sample_entity (Some [reversed_event]))"
proof -
  have h1: "fst (get_current_event utc_lib 43200
                   (coordinator (sample_entity (Some [reversed_event])))) = Some reversed_event"
    by (simp add: get_current_event_def current_event_candidates_def overlapping_def
        classify_def is_started_iff is_finished_iff select_event_def no_buckets_def sample_defs)
  have h2: "create_calendar_event_entity utc_lib reversed_event
       = Inl (HomeAssistantError ''Expected minimum event duration'')"
    by (simp add: create_calendar_event_entity_def get_end_date_def utc_lib_defs sample_defs)
  have h3: "is_HomeAssistantError (HomeAssistantError ''Expected minimum event duration'')"
    by simp
  show ?thesis
    using entity_unbound_event_on_HomeAssistantError [OF h1 h2 h3] h1 h2
    by simp
qed

end
